theory Spec2Isabelle
  imports Main
begin

section \<open>Data model\<close>

subsection \<open>Dates and timestamps\<close>

text \<open>
  A Python \<open>date\<close> is a year, a month and a day of the proleptic Gregorian calendar,
  with \<open>MINYEAR = 1\<close> and \<open>MAXYEAR = 9999\<close>. A \<open>datetime\<close> (\<open>created_at\<close>,
  \<open>updated_at\<close>, token times) is a number of seconds since the epoch.
\<close>

record date =
  year :: nat
  month :: nat
  day :: nat

type_synonym datetime = int

definition is_leap :: "nat \<Rightarrow> bool" where
  "is_leap y = (y mod 4 = 0 \<and> (y mod 100 \<noteq> 0 \<or> y mod 400 = 0))"

definition days_in_month :: "nat \<Rightarrow> nat \<Rightarrow> nat" where
  "days_in_month y m =
     (if m = 2 then (if is_leap y then 29 else 28)
      else if m = 4 \<or> m = 6 \<or> m = 9 \<or> m = 11 then 30 else 31)"

definition valid_date :: "date \<Rightarrow> bool" where
  "valid_date d =
     (1 \<le> year d \<and> year d \<le> 9999 \<and> 1 \<le> month d \<and> month d \<le> 12 \<and>
      1 \<le> day d \<and> day d \<le> days_in_month (year d) (month d))"

definition next_day :: "date \<Rightarrow> date" where
  "next_day d =
     (if day d < days_in_month (year d) (month d) then d\<lparr>day := day d + 1\<rparr>
      else if month d < 12 then d\<lparr>month := month d + 1, day := 1\<rparr>
      else \<lparr>year = year d + 1, month = 1, day = 1\<rparr>)"

subsection \<open>Exceptions\<close>

text \<open>
  \<open>HTTPException status_code detail\<close> is FastAPI's exception (its headers are left out);
  \<open>KeyError\<close> is a failed \<open>dict[key]\<close>; \<open>IntegrityError\<close> is what the session's commit
  raises when the database rejects a row; \<open>OverflowError\<close> is date arithmetic past
  \<open>MAXYEAR\<close>.
\<close>

datatype exc =
  HTTPException nat string
  | KeyError string
  | IntegrityError
  | OverflowError

text \<open>\<open>today + timedelta(days=n)\<close>: the date \<open>n\<close> days later, or \<open>OverflowError\<close>.\<close>

definition date_add_days :: "date \<Rightarrow> nat \<Rightarrow> exc + date" where
  "date_add_days d n =
     (let r = (next_day ^^ n) d in if year r > 9999 then Inl OverflowError else Inr r)"

text \<open>The day of the month seven days after \<open>d\<close>, in closed form (used to state what
  \<open>date_add_days d 7\<close> computes).\<close>

definition day_after_week :: "date \<Rightarrow> nat" where
  "day_after_week d =
     (if day d + 7 \<le> days_in_month (year d) (month d) then day d + 7
      else day d + 7 - days_in_month (year d) (month d))"

subsection \<open>Tables (\<open>src/database/models.py\<close>) and request bodies (\<open>src/schemas.py\<close>)\<close>

text \<open>
  \<open>ContactModel\<close> is the validated request body. A row of the \<open>contacts\<close> table has the
  five fields of the body (\<open>Contact(**body.dict(), user=user)\<close> copies them) and the
  columns the database fills in; the record extension shares the field names. The column
  \<open>id\<close> is written \<open>id'\<close> here, and the columns \<open>id\<close>, \<open>email\<close> and \<open>created_at\<close> of a
  user are \<open>uid\<close>, \<open>user_email\<close> and \<open>user_created_at\<close>. The \<open>birthday\<close> column is a
  \<open>DateTime\<close> holding the body's date at midnight; only its date part is ever read.
  Every row is written by \<open>create_contact\<close> or \<open>update\<close> from a validated body for an
  authenticated user, so its columns hold values (none is \<open>NULL\<close>).
\<close>

record User =
  uid :: int
  username :: string
  user_email :: string
  password :: string
  user_created_at :: datetime
  refresh_token :: "string option"
  avatar :: "string option"
  confirmed :: bool

record ContactModel =
  first_name :: string
  last_name :: string
  email :: string
  phone :: string
  birthday :: date

record Contact = ContactModel +
  id' :: int
  created_at :: datetime
  updated_at :: datetime
  user_id :: int

text \<open>
  The database behind a \<open>Session\<close>: the rows of the two tables, in the order the
  database returns them (the queries have no \<open>ORDER BY\<close>).
\<close>

record Session =
  users :: "User list"
  contacts :: "Contact list"

section \<open>The contact repository (\<open>src/repository/contacts.py\<close>)\<close>

text \<open>\<open>Query.first()\<close>: the first row of the result, or \<open>None\<close>.\<close>

definition query_first :: "'a list \<Rightarrow> 'a option" where
  "query_first rows = (case rows of [] \<Rightarrow> None | r # _ \<Rightarrow> Some r)"

text \<open>
  \<open>limit\<close> and \<open>offset\<close> go to the database's \<open>LIMIT\<close> and \<open>OFFSET\<close>: skip \<open>offset\<close> rows
  of the filtered result, then return at most \<open>limit\<close> rows. What a negative value does is
  the database engine's answer, which the repository does not fix, so both are naturals.
\<close>

definition get_contacts :: "nat \<Rightarrow> nat \<Rightarrow> User \<Rightarrow> Session \<Rightarrow> Contact list" where
  "get_contacts limit offset user db =
     take limit (drop offset (filter (\<lambda>c. user_id c = uid user) (contacts db)))"

definition get_contact_by_id :: "int \<Rightarrow> User \<Rightarrow> Session \<Rightarrow> Contact option" where
  "get_contact_by_id contact_id user db =
     query_first (filter (\<lambda>c. user_id c = uid user \<and> id' c = contact_id) (contacts db))"

definition get_contact_by_email :: "string \<Rightarrow> User \<Rightarrow> Session \<Rightarrow> Contact option" where
  "get_contact_by_email contact_email user db =
     query_first (filter (\<lambda>c. user_id c = uid user \<and> email c = contact_email) (contacts db))"

definition get_contact_by_first_name :: "string \<Rightarrow> User \<Rightarrow> Session \<Rightarrow> Contact list" where
  "get_contact_by_first_name contact_first_name user db =
     filter (\<lambda>c. user_id c = uid user \<and> first_name c = contact_first_name) (contacts db)"

definition get_contact_by_last_name :: "string \<Rightarrow> User \<Rightarrow> Session \<Rightarrow> Contact list" where
  "get_contact_by_last_name contact_last_name user db =
     filter (\<lambda>c. user_id c = uid user \<and> last_name c = contact_last_name) (contacts db)"

text \<open>
  \<open>get_birthday\<close> reads the clock (\<open>date.today()\<close>), here the argument \<open>today\<close>;
  \<open>extract('day', Contact.birthday)\<close> and \<open>extract('month', Contact.birthday)\<close> are the
  fields \<open>day\<close> and \<open>month\<close> of the stored date.
\<close>

definition get_birthday :: "date \<Rightarrow> User \<Rightarrow> Session \<Rightarrow> exc + Contact list" where
  "get_birthday today user db =
     (case date_add_days today 7 of
        Inl e \<Rightarrow> Inl e
      | Inr next_week \<Rightarrow>
          Inr (filter (\<lambda>c. user_id c = uid user \<and> day (birthday c) \<ge> day today \<and>
                           day (birthday c) \<le> day next_week \<and>
                           month (birthday c) = month today) (contacts db)))"

subsection \<open>Writes\<close>

text \<open>
  A commit is checked by the database against the declared schema: \<open>id\<close> is the primary
  key and \<open>email\<close> is declared \<open>unique=True\<close>, so an \<open>INSERT\<close> or \<open>UPDATE\<close> whose email is
  already held by another row is rejected (\<open>IntegrityError\<close>) and the table stays as it
  was. A new row gets a primary key that no stored row has; the model takes one more than
  the largest stored id. \<open>created_at\<close> and \<open>updated_at\<close> default to \<open>func.now()\<close>, here
  the argument \<open>now\<close>.
\<close>

definition fresh_id :: "Contact list \<Rightarrow> int" where
  "fresh_id rows = foldr max (map id' rows) 0 + 1"

definition create_contact ::
  "ContactModel \<Rightarrow> User \<Rightarrow> datetime \<Rightarrow> Session \<Rightarrow> (exc + Contact) \<times> Session" where
  "create_contact body user now db =
     (let contact = \<lparr>first_name = first_name body, last_name = last_name body,
                      email = email body, phone = phone body, birthday = birthday body,
                      id' = fresh_id (contacts db), created_at = now, updated_at = now,
                      user_id = uid user\<rparr>
      in if email contact \<in> set (map email (contacts db))
         then (Inl IntegrityError, db)
         else (Inr contact, db\<lparr>contacts := contacts db @ [contact]\<rparr>))"

text \<open>
  The five assignments of \<open>update\<close>; the \<open>UPDATE\<close> they cause also sets \<open>updated_at\<close>
  (\<open>onupdate=func.now()\<close>).
\<close>

definition assign_body :: "ContactModel \<Rightarrow> datetime \<Rightarrow> Contact \<Rightarrow> Contact" where
  "assign_body body now contact =
     contact\<lparr>first_name := first_name body, last_name := last_name body,
             email := email body, phone := phone body, birthday := birthday body,
             updated_at := now\<rparr>"

text \<open>
  The session writes the loaded object back by its primary key
  (\<open>UPDATE contacts SET ... WHERE id = ?\<close>, \<open>DELETE FROM contacts WHERE id = ?\<close>).
\<close>

definition update ::
  "int \<Rightarrow> ContactModel \<Rightarrow> User \<Rightarrow> datetime \<Rightarrow> Session \<Rightarrow> (exc + Contact option) \<times> Session"
  where
  "update contact_id body user now db =
     (case get_contact_by_id contact_id user db of
        None \<Rightarrow> (Inr None, db)
      | Some contact \<Rightarrow>
          if email body \<in> set (map email (filter (\<lambda>c. id' c \<noteq> id' contact) (contacts db)))
          then (Inl IntegrityError, db)
          else (Inr (Some (assign_body body now contact)),
                db\<lparr>contacts := map (\<lambda>c. if id' c = id' contact then assign_body body now c
                                          else c) (contacts db)\<rparr>))"

definition remove :: "int \<Rightarrow> User \<Rightarrow> Session \<Rightarrow> Contact option \<times> Session" where
  "remove contact_id user db =
     (case get_contact_by_id contact_id user db of
        None \<Rightarrow> (None, db)
      | Some contact \<Rightarrow>
          (Some contact, db\<lparr>contacts := filter (\<lambda>c. id' c \<noteq> id' contact) (contacts db)\<rparr>))"

section \<open>The contact routes (\<open>src/routes/contacts.py\<close>)\<close>

text \<open>
  A handler is modelled as the Python function it is, called with the arguments FastAPI
  has resolved for it: the rate limiter, the bearer-token dependency and the declarative
  validation of path, query and body run before the handler and are not part of it. The
  handlers \<open>get_contacts\<close> and \<open>create_contact\<close> carry the prefix \<open>routes_\<close>, since the
  repository has functions of the same names.
\<close>

definition routes_get_contacts :: "nat \<Rightarrow> nat \<Rightarrow> User \<Rightarrow> Session \<Rightarrow> Contact list" where
  "routes_get_contacts limit offset current_user db = get_contacts limit offset current_user db"

definition routes_create_contact ::
  "ContactModel \<Rightarrow> User \<Rightarrow> datetime \<Rightarrow> Session \<Rightarrow> (exc + Contact) \<times> Session" where
  "routes_create_contact body current_user now db =
     (case get_contact_by_email (email body) current_user db of
        Some contact \<Rightarrow> (Inl (HTTPException 409 ''Email is exists''), db)
      | None \<Rightarrow> create_contact body current_user now db)"

definition search_contact_7_days_birthday :: "date \<Rightarrow> User \<Rightarrow> Session \<Rightarrow> exc + Contact list"
  where
  "search_contact_7_days_birthday today current_user db =
     (case get_birthday today current_user db of
        Inl e \<Rightarrow> Inl e
      | Inr cs \<Rightarrow> if length cs < 1 then Inl (HTTPException 404 ''Not Found'') else Inr cs)"

definition get_contact :: "int \<Rightarrow> User \<Rightarrow> Session \<Rightarrow> exc + Contact" where
  "get_contact contact_id current_user db =
     (case get_contact_by_id contact_id current_user db of
        None \<Rightarrow> Inl (HTTPException 404 ''Not Found'')
      | Some contact \<Rightarrow> Inr contact)"

definition update_contact ::
  "ContactModel \<Rightarrow> int \<Rightarrow> User \<Rightarrow> datetime \<Rightarrow> Session \<Rightarrow> (exc + Contact) \<times> Session" where
  "update_contact body contact_id current_user now db =
     (case update contact_id body current_user now db of
        (Inl e, db') \<Rightarrow> (Inl e, db')
      | (Inr None, db') \<Rightarrow> (Inl (HTTPException 404 ''Not Found''), db')
      | (Inr (Some contact), db') \<Rightarrow> (Inr contact, db'))"

definition remove_contact :: "int \<Rightarrow> User \<Rightarrow> Session \<Rightarrow> (exc + Contact) \<times> Session" where
  "remove_contact contact_id current_user db =
     (case remove contact_id current_user db of
        (None, db') \<Rightarrow> (Inl (HTTPException 404 ''Not Found''), db')
      | (Some contact, db') \<Rightarrow> (Inr contact, db'))"

definition search_contact_by_email :: "string \<Rightarrow> User \<Rightarrow> Session \<Rightarrow> exc + Contact" where
  "search_contact_by_email contact_email current_user db =
     (case get_contact_by_email contact_email current_user db of
        None \<Rightarrow> Inl (HTTPException 404 ''Not Found'')
      | Some contact \<Rightarrow> Inr contact)"

definition search_contact_by_first_name :: "string \<Rightarrow> User \<Rightarrow> Session \<Rightarrow> exc + Contact list"
  where
  "search_contact_by_first_name contact_first_name current_user db =
     (let cs = get_contact_by_first_name contact_first_name current_user db
      in if length cs < 1 then Inl (HTTPException 404 ''Not Found'') else Inr cs)"

definition search_contact_by_last_name :: "string \<Rightarrow> User \<Rightarrow> Session \<Rightarrow> exc + Contact list"
  where
  "search_contact_by_last_name contact_last_name current_user db =
     (let cs = get_contact_by_last_name contact_last_name current_user db
      in if length cs < 1 then Inl (HTTPException 404 ''Not Found'') else Inr cs)"

section \<open>Tokens (\<open>src/services/auth.py\<close>)\<close>

subsection \<open>Python values and dictionaries\<close>

text \<open>
  The values a token payload holds, and a \<open>dict\<close> with string keys. \<open>d.get(k)\<close> is
  \<open>None\<close> for a missing key; \<open>d[k]\<close> raises \<open>KeyError\<close> for it.
\<close>

datatype pyval = PNone | PStr string | PInt int

type_synonym pydict = "string \<Rightarrow> pyval option"

definition dict_get :: "pydict \<Rightarrow> string \<Rightarrow> pyval" where
  "dict_get d k = (case d k of None \<Rightarrow> PNone | Some v \<Rightarrow> v)"

definition dict_item :: "pydict \<Rightarrow> string \<Rightarrow> exc + pyval" where
  "dict_item d k = (case d k of None \<Rightarrow> Inl (KeyError k) | Some v \<Rightarrow> Inr v)"

subsection \<open>The JWT library\<close>

text \<open>
  \<open>jose.jwt\<close> is a third-party library. The functions of \<open>Auth\<close> take its \<open>encode\<close> and
  \<open>decode\<close> as arguments, so what is proved of a verifier holds for whatever \<open>decode\<close>
  returns. \<open>JWTError\<close> and its subclasses are the errors \<open>decode\<close> raises; every verifier
  catches them with \<open>except JWTError\<close>.
\<close>

datatype jwt_error = JWTError | ExpiredSignatureError | JWTClaimsError

text \<open>
  For the round trip the library is modelled symbolically: a token is either the claims
  together with the key and the algorithm that signed them, or a string that is no signed
  token. \<open>decode\<close> fails on a string that is no token, on another key and on an algorithm
  that is not accepted. Of the library's checks of the registered claims the model has
  those of \<open>exp\<close> and \<open>sub\<close>, the two that concern the tokens issued here: \<open>exp\<close>,
  when present, is an integer and not before the clock (\<open>now\<close>); \<open>sub\<close>, when present,
  is a string.
\<close>

datatype token = JWS pydict string string | Garbage string

definition jose_encode :: "pydict \<Rightarrow> string \<Rightarrow> string \<Rightarrow> token" where
  "jose_encode claims key alg = JWS claims key alg"

definition validate_claims :: "datetime \<Rightarrow> pydict \<Rightarrow> jwt_error + pydict" where
  "validate_claims now claims =
     (case claims ''exp'' of
        Some (PInt exp) \<Rightarrow>
          if exp < now then Inl ExpiredSignatureError
          else (case claims ''sub'' of
                  None \<Rightarrow> Inr claims
                | Some (PStr s) \<Rightarrow> Inr claims
                | Some other \<Rightarrow> Inl JWTClaimsError)
      | Some other \<Rightarrow> Inl JWTClaimsError
      | None \<Rightarrow>
          (case claims ''sub'' of
             None \<Rightarrow> Inr claims
           | Some (PStr s) \<Rightarrow> Inr claims
           | Some other \<Rightarrow> Inl JWTClaimsError))"

definition jose_decode :: "datetime \<Rightarrow> token \<Rightarrow> string \<Rightarrow> string list \<Rightarrow> jwt_error + pydict"
  where
  "jose_decode now tok key algorithms =
     (case tok of
        Garbage s \<Rightarrow> Inl JWTError
      | JWS claims k a \<Rightarrow>
          if k = key \<and> a \<in> set algorithms then validate_claims now claims
          else Inl JWTError)"

subsection \<open>Settings and the user lookup\<close>

text \<open>
  \<open>SECRET_KEY\<close> and \<open>ALGORITHM\<close> come from \<open>src/conf/config.py\<close>, which is not among the
  sources: they are parameters.
\<close>

record settings =
  secret_key :: string
  algorithm :: string

text \<open>
  Modelled from the spec: \<open>repository_users.get_user_by_email\<close> of
  \<open>src/repository/users.py\<close>, which is not among the sources (the spec's "get-by-email";
  its test mocks \<open>query().filter_by().first()\<close>): the first user with that email, or
  \<open>None\<close>.
\<close>

definition get_user_by_email :: "pyval \<Rightarrow> Session \<Rightarrow> User option" where
  "get_user_by_email email_value db =
     query_first (filter (\<lambda>u. PStr (user_email u) = email_value) (users db))"

subsection \<open>Issuing tokens\<close>

text \<open>
  \<open>datetime.utcnow()\<close> is the argument \<open>now\<close>, in whole seconds (the library writes
  \<open>iat\<close> and \<open>exp\<close> into the token as integer timestamps); \<open>expires_delta\<close> is a number
  of seconds, and \<open>if expires_delta:\<close> is false for \<open>None\<close> and for zero.
\<close>

definition create_access_token ::
  "(pydict \<Rightarrow> string \<Rightarrow> string \<Rightarrow> 'tok) \<Rightarrow> settings \<Rightarrow> datetime \<Rightarrow> pydict \<Rightarrow> int option \<Rightarrow> 'tok"
  where
  "create_access_token encode S now data expires_delta =
     (let expire = (case expires_delta of
                      None \<Rightarrow> now + 15 * 60
                    | Some d \<Rightarrow> if d \<noteq> 0 then now + d else now + 15 * 60);
          to_encode = data(''iat'' \<mapsto> PInt now, ''exp'' \<mapsto> PInt expire,
                           ''scope'' \<mapsto> PStr ''access_token'')
      in encode to_encode (secret_key S) (algorithm S))"

definition create_refresh_token ::
  "(pydict \<Rightarrow> string \<Rightarrow> string \<Rightarrow> 'tok) \<Rightarrow> settings \<Rightarrow> datetime \<Rightarrow> pydict \<Rightarrow> int option \<Rightarrow> 'tok"
  where
  "create_refresh_token encode S now data expires_delta =
     (let expire = (case expires_delta of
                      None \<Rightarrow> now + 7 * 86400
                    | Some d \<Rightarrow> if d \<noteq> 0 then now + d else now + 7 * 86400);
          to_encode = data(''iat'' \<mapsto> PInt now, ''exp'' \<mapsto> PInt expire,
                           ''scope'' \<mapsto> PStr ''refresh_token'')
      in encode to_encode (secret_key S) (algorithm S))"

definition create_email_token ::
  "(pydict \<Rightarrow> string \<Rightarrow> string \<Rightarrow> 'tok) \<Rightarrow> settings \<Rightarrow> datetime \<Rightarrow> pydict \<Rightarrow> 'tok" where
  "create_email_token encode S now data =
     (let expire = now + 3 * 86400;
          to_encode = data(''iat'' \<mapsto> PInt now, ''exp'' \<mapsto> PInt expire,
                           ''scope'' \<mapsto> PStr ''email_token'')
      in encode to_encode (secret_key S) (algorithm S))"

subsection \<open>Verifying tokens\<close>

definition credentials_exception :: exc where
  "credentials_exception = HTTPException 401 ''Could not validate credentials''"

definition get_current_user ::
  "('tok \<Rightarrow> string \<Rightarrow> string list \<Rightarrow> jwt_error + pydict) \<Rightarrow> settings \<Rightarrow> 'tok \<Rightarrow> Session
     \<Rightarrow> exc + User" where
  "get_current_user decode S tok db =
     (case decode tok (secret_key S) [algorithm S] of
        Inl e \<Rightarrow> Inl credentials_exception
      | Inr payload \<Rightarrow>
          if dict_get payload ''scope'' = PStr ''access_token'' then
            (let email_value = dict_get payload ''sub'' in
             if email_value = PNone then Inl credentials_exception
             else (case get_user_by_email email_value db of
                     None \<Rightarrow> Inl credentials_exception
                   | Some user \<Rightarrow> Inr user))
          else Inl credentials_exception)"

definition decode_refresh_token ::
  "('tok \<Rightarrow> string \<Rightarrow> string list \<Rightarrow> jwt_error + pydict) \<Rightarrow> settings \<Rightarrow> 'tok \<Rightarrow> exc + pyval"
  where
  "decode_refresh_token decode S refresh_tok =
     (case decode refresh_tok (secret_key S) [algorithm S] of
        Inl e \<Rightarrow> Inl (HTTPException 401 ''Could not validate credentials'')
      | Inr payload \<Rightarrow>
          (case dict_item payload ''scope'' of
             Inl e \<Rightarrow> Inl e
           | Inr scope \<Rightarrow>
               if scope = PStr ''refresh_token'' then dict_item payload ''sub''
               else Inl (HTTPException 401 ''Invalid scope for token'')))"

text \<open>
  \<open>get_email_from_token\<close> has no statement after its \<open>if\<close>: with another scope the
  function runs off its end and returns \<open>None\<close>.
\<close>

definition get_email_from_token ::
  "('tok \<Rightarrow> string \<Rightarrow> string list \<Rightarrow> jwt_error + pydict) \<Rightarrow> settings \<Rightarrow> 'tok \<Rightarrow> exc + pyval"
  where
  "get_email_from_token decode S tok =
     (case decode tok (secret_key S) [algorithm S] of
        Inl e \<Rightarrow> Inl (HTTPException 422 ''Invalid token for email verification'')
      | Inr payload \<Rightarrow>
          (case dict_item payload ''scope'' of
             Inl e \<Rightarrow> Inl e
           | Inr scope \<Rightarrow>
               if scope = PStr ''email_token'' then dict_item payload ''sub''
               else Inr PNone))"

section \<open>Sequences of contact operations\<close>

text \<open>
  A caller's request that can change the \<open>contacts\<close> table: creating through the route
  (which checks the email first), and the repository's \<open>update\<close> and \<open>remove\<close>.
\<close>

datatype operation =
  Create ContactModel User datetime
  | Update int ContactModel User datetime
  | Remove int User

fun step :: "operation \<Rightarrow> Session \<Rightarrow> Session" where
  "step (Create body user now) db = snd (routes_create_contact body user now db)"
| "step (Update contact_id body user now) db = snd (update contact_id body user now db)"
| "step (Remove contact_id user) db = snd (remove contact_id user db)"

fun run :: "operation list \<Rightarrow> Session \<Rightarrow> Session" where
  "run [] db = db"
| "run (op # ops) db = run ops (step op db)"

text \<open>No two contacts of one user share an email.\<close>

definition one_contact_per_email :: "Session \<Rightarrow> bool" where
  "one_contact_per_email db = distinct (map (\<lambda>c. (user_id c, email c)) (contacts db))"

section \<open>Sample data\<close>

definition alice :: User where
  "alice = \<lparr>uid = 1, username = ''alice'', user_email = ''alice@example.com'',
            password = ''$2b$12$hash'', user_created_at = 0, refresh_token = None,
            avatar = None, confirmed = True\<rparr>"

definition bob :: User where
  "bob = \<lparr>uid = 2, username = ''bob'', user_email = ''bob@example.com'',
          password = ''$2b$12$hash'', user_created_at = 0, refresh_token = None,
          avatar = None, confirmed = True\<rparr>"

definition carol_body :: ContactModel where
  "carol_body = \<lparr>first_name = ''Carol'', last_name = ''King'', email = ''carol@example.com'',
                 phone = ''+380991234567'', birthday = \<lparr>year = 1994, month = 5, day = 2\<rparr>\<rparr>"

definition dave_body :: ContactModel where
  "dave_body = \<lparr>first_name = ''Dave'', last_name = ''King'', email = ''dave@example.com'',
                phone = ''+380990000000'', birthday = \<lparr>year = 1990, month = 5, day = 30\<rparr>\<rparr>"

definition stored :: "ContactModel \<Rightarrow> int \<Rightarrow> int \<Rightarrow> Contact" where
  "stored body i owner =
     \<lparr>first_name = first_name body, last_name = last_name body, email = email body,
      phone = phone body, birthday = birthday body,
      id' = i, created_at = 100, updated_at = 100, user_id = owner\<rparr>"

definition erin_body :: ContactModel where
  "erin_body = \<lparr>first_name = ''Erin'', last_name = ''Moss'', email = ''erin@example.com'',
                phone = ''+380991111111'', birthday = \<lparr>year = 1988, month = 12, day = 28\<rparr>\<rparr>"

text \<open>Alice owns contacts 1 (Carol) and 3 (Dave); Bob owns contact 2 (Erin).\<close>

definition db0 :: Session where
  "db0 = \<lparr>users = [alice, bob],
          contacts = [stored carol_body 1 1, stored erin_body 2 2, stored dave_body 3 1]\<rparr>"

definition app_settings :: settings where
  "app_settings = \<lparr>secret_key = ''secret'', algorithm = ''HS256''\<rparr>"

definition frank_body :: ContactModel where
  "frank_body = \<lparr>first_name = ''Frank'', last_name = ''Hill'', email = ''frank@example.com'',
                 phone = ''+380992222222'', birthday = \<lparr>year = 2001, month = 1, day = 3\<rparr>\<rparr>"

definition alice_claims :: pydict where
  "alice_claims = Map.empty(''sub'' \<mapsto> PStr ''alice@example.com'')"

definition sample_operations :: "operation list" where
  "sample_operations =
     [Create frank_body bob 201, Update 3 carol_body alice 202, Update 2 dave_body bob 203,
      Remove 1 alice, Update 3 carol_body alice 204]"

lemmas sample_defs =
  db0_def alice_def bob_def stored_def carol_body_def dave_body_def erin_body_def
  frank_body_def

section \<open>Queries are scoped to the caller\<close>

lemma query_first_Some: "query_first rows = Some r \<Longrightarrow> r \<in> set rows"
  by (cases rows) (simp_all add: query_first_def)

lemma query_first_None: "query_first rows = None \<longleftrightarrow> rows = []"
  by (cases rows) (simp_all add: query_first_def)

text \<open>
  Claim C1. For every user and every contact query of the repository (\<open>get_contacts\<close>,
  \<open>get_contact_by_id\<close>, \<open>get_contact_by_email\<close>, \<open>get_contact_by_first_name\<close>,
  \<open>get_contact_by_last_name\<close>, \<open>get_birthday\<close>), every contact of the result is a stored
  contact whose \<open>user_id\<close> is the user's id: no contact of another user is returned.
\<close>

theorem C1_queries_scoped_to_user:
  "(\<forall>c \<in> set (get_contacts limit offset user db).
        c \<in> set (contacts db) \<and> user_id c = uid user) \<and>
   (\<forall>c. get_contact_by_id contact_id user db = Some c \<longrightarrow>
        c \<in> set (contacts db) \<and> user_id c = uid user) \<and>
   (\<forall>c. get_contact_by_email contact_email user db = Some c \<longrightarrow>
        c \<in> set (contacts db) \<and> user_id c = uid user) \<and>
   (\<forall>c \<in> set (get_contact_by_first_name contact_first_name user db).
        c \<in> set (contacts db) \<and> user_id c = uid user) \<and>
   (\<forall>c \<in> set (get_contact_by_last_name contact_last_name user db).
        c \<in> set (contacts db) \<and> user_id c = uid user) \<and>
   (\<forall>cs. get_birthday today user db = Inr cs \<longrightarrow>
        (\<forall>c \<in> set cs. c \<in> set (contacts db) \<and> user_id c = uid user))"
proof (intro conjI)
  show "\<forall>c \<in> set (get_contacts limit offset user db).
          c \<in> set (contacts db) \<and> user_id c = uid user"
  proof
    fix c assume "c \<in> set (get_contacts limit offset user db)"
    then have "c \<in> set (filter (\<lambda>c. user_id c = uid user) (contacts db))"
      unfolding get_contacts_def by (blast dest: in_set_takeD in_set_dropD)
    then show "c \<in> set (contacts db) \<and> user_id c = uid user" by simp
  qed
next
  show "\<forall>c. get_contact_by_id contact_id user db = Some c \<longrightarrow>
          c \<in> set (contacts db) \<and> user_id c = uid user"
    unfolding get_contact_by_id_def by (auto dest: query_first_Some)
next
  show "\<forall>c. get_contact_by_email contact_email user db = Some c \<longrightarrow>
          c \<in> set (contacts db) \<and> user_id c = uid user"
    unfolding get_contact_by_email_def by (auto dest: query_first_Some)
next
  show "\<forall>c \<in> set (get_contact_by_first_name contact_first_name user db).
          c \<in> set (contacts db) \<and> user_id c = uid user"
    by (simp add: get_contact_by_first_name_def)
next
  show "\<forall>c \<in> set (get_contact_by_last_name contact_last_name user db).
          c \<in> set (contacts db) \<and> user_id c = uid user"
    by (simp add: get_contact_by_last_name_def)
next
  show "\<forall>cs. get_birthday today user db = Inr cs \<longrightarrow>
          (\<forall>c \<in> set cs. c \<in> set (contacts db) \<and> user_id c = uid user)"
    unfolding get_birthday_def by (auto split: sum.splits)
qed

lemma get_contacts_alice:
  "get_contacts 10 0 alice db0 = [stored carol_body 1 1, stored dave_body 3 1]"
  by (simp add: get_contacts_def sample_defs)

theorem C1_queries_scoped_to_user_witness:
  "get_contacts 10 0 alice db0 = [stored carol_body 1 1, stored dave_body 3 1] \<and>
   list_all (\<lambda>c. c \<in> set (contacts db0) \<and> user_id c = uid alice)
     (get_contacts 10 0 alice db0) \<and>
   get_contact_by_id 2 alice db0 = None \<and>
   get_contact_by_id 2 bob db0 = Some (stored erin_body 2 2)"
proof -
  have a: "get_contact_by_id 2 alice db0 = None"
    by (simp add: get_contact_by_id_def query_first_def sample_defs)
  have b: "get_contact_by_id 2 bob db0 = Some (stored erin_body 2 2)"
    by (simp add: get_contact_by_id_def query_first_def sample_defs)
  from C1_queries_scoped_to_user [of 10 0 alice db0]
  have "list_all (\<lambda>c. c \<in> set (contacts db0) \<and> user_id c = uid alice)
          (get_contacts 10 0 alice db0)"
    unfolding list_all_iff by blast
  with a b get_contacts_alice show ?thesis by simp
qed

section \<open>Missing and foreign contacts\<close>

lemma get_contact_by_id_None:
  "get_contact_by_id contact_id user db = None \<longleftrightarrow>
     \<not> (\<exists>c \<in> set (contacts db). id' c = contact_id \<and> user_id c = uid user)"
  by (auto simp: get_contact_by_id_def query_first_None filter_empty_conv)

text \<open>
  Claim C2. For every contact id that no stored contact of the caller has (the id does not
  exist, or its contact belongs to another user), the repository's \<open>update\<close> and
  \<open>remove\<close> return \<open>None\<close>, the handlers \<open>update_contact\<close> and \<open>remove_contact\<close>
  answer 404 "Not Found", and the session is exactly what it was: no field is changed, no
  row is deleted, nothing is committed.
\<close>

theorem C2_missing_or_foreign_contact_not_found:
  assumes "\<not> (\<exists>c \<in> set (contacts db). id' c = contact_id \<and> user_id c = uid user)"
  shows "update contact_id body user now db = (Inr None, db) \<and>
         remove contact_id user db = (None, db) \<and>
         update_contact body contact_id user now db = (Inl (HTTPException 404 ''Not Found''), db) \<and>
         remove_contact contact_id user db = (Inl (HTTPException 404 ''Not Found''), db)"
proof -
  from assms have none: "get_contact_by_id contact_id user db = None"
    by (simp add: get_contact_by_id_None)
  have u: "update contact_id body user now db = (Inr None, db)"
    by (simp add: update_def none)
  have r: "remove contact_id user db = (None, db)"
    by (simp add: remove_def none)
  show ?thesis
    by (simp add: u r update_contact_def remove_contact_def)
qed

theorem C2_missing_or_foreign_contact_not_found_witness:
  "update 2 carol_body alice 200 db0 = (Inr None, db0) \<and>
   remove 2 alice db0 = (None, db0) \<and>
   update_contact carol_body 2 alice 200 db0 = (Inl (HTTPException 404 ''Not Found''), db0) \<and>
   remove_contact 2 alice db0 = (Inl (HTTPException 404 ''Not Found''), db0) \<and>
   remove_contact 99 alice db0 = (Inl (HTTPException 404 ''Not Found''), db0) \<and>
   get_contact_by_id 2 bob db0 = Some (stored erin_body 2 2)"
proof -
  have foreign: "\<not> (\<exists>c \<in> set (contacts db0). id' c = 2 \<and> user_id c = uid alice)"
    by (simp add: sample_defs)
  have missing: "\<not> (\<exists>c \<in> set (contacts db0). id' c = 99 \<and> user_id c = uid alice)"
    by (simp add: sample_defs)
  have b: "get_contact_by_id 2 bob db0 = Some (stored erin_body 2 2)"
    by (simp add: get_contact_by_id_def query_first_def sample_defs)
  from C2_missing_or_foreign_contact_not_found [OF foreign, of carol_body 200]
       C2_missing_or_foreign_contact_not_found [OF missing, of carol_body 200] b
  show ?thesis by simp
qed

section \<open>Empty search results\<close>

text \<open>
  Claim C10. The handlers that search by first name, by last name and for upcoming
  birthdays raise HTTP 404 when the repository query yields the empty list, and return a
  non-empty list as it is.
\<close>

theorem C10_empty_search_is_not_found:
  "(get_contact_by_first_name contact_first_name user db = [] \<longrightarrow>
      search_contact_by_first_name contact_first_name user db
        = Inl (HTTPException 404 ''Not Found'')) \<and>
   (get_contact_by_first_name contact_first_name user db \<noteq> [] \<longrightarrow>
      search_contact_by_first_name contact_first_name user db
        = Inr (get_contact_by_first_name contact_first_name user db)) \<and>
   (get_contact_by_last_name contact_last_name user db = [] \<longrightarrow>
      search_contact_by_last_name contact_last_name user db
        = Inl (HTTPException 404 ''Not Found'')) \<and>
   (get_contact_by_last_name contact_last_name user db \<noteq> [] \<longrightarrow>
      search_contact_by_last_name contact_last_name user db
        = Inr (get_contact_by_last_name contact_last_name user db)) \<and>
   (get_birthday today user db = Inr [] \<longrightarrow>
      search_contact_7_days_birthday today user db = Inl (HTTPException 404 ''Not Found'')) \<and>
   (\<forall>cs. get_birthday today user db = Inr cs \<longrightarrow> cs \<noteq> [] \<longrightarrow>
      search_contact_7_days_birthday today user db = Inr cs)"
  by (simp add: search_contact_by_first_name_def search_contact_by_last_name_def
      search_contact_7_days_birthday_def Let_def)

lemma next_week_May_2:
  "date_add_days \<lparr>year = 2023, month = 5, day = 2\<rparr> 7 = Inr \<lparr>year = 2023, month = 5, day = 9\<rparr>"
  by (simp add: date_add_days_def eval_nat_numeral next_day_def days_in_month_def Let_def)

lemma get_birthday_May_2:
  "get_birthday \<lparr>year = 2023, month = 5, day = 2\<rparr> alice db0 = Inr [stored carol_body 1 1]"
  by (simp add: get_birthday_def next_week_May_2 sample_defs)

lemma get_birthday_May_2_bob:
  "get_birthday \<lparr>year = 2023, month = 5, day = 2\<rparr> bob db0 = Inr []"
  by (simp add: get_birthday_def next_week_May_2 sample_defs)

theorem C10_empty_search_is_not_found_witness:
  "search_contact_by_first_name ''Carol'' alice db0 = Inr [stored carol_body 1 1] \<and>
   search_contact_by_first_name ''Carol'' bob db0 = Inl (HTTPException 404 ''Not Found'') \<and>
   search_contact_by_last_name ''King'' alice db0
     = Inr [stored carol_body 1 1, stored dave_body 3 1] \<and>
   search_contact_by_last_name ''King'' bob db0 = Inl (HTTPException 404 ''Not Found'') \<and>
   search_contact_7_days_birthday \<lparr>year = 2023, month = 5, day = 2\<rparr> alice db0
     = Inr [stored carol_body 1 1] \<and>
   search_contact_7_days_birthday \<lparr>year = 2023, month = 5, day = 2\<rparr> bob db0
     = Inl (HTTPException 404 ''Not Found'')"
proof -
  have f1: "get_contact_by_first_name ''Carol'' alice db0 = [stored carol_body 1 1]"
    by (simp add: get_contact_by_first_name_def sample_defs)
  have f2: "get_contact_by_first_name ''Carol'' bob db0 = []"
    by (simp add: get_contact_by_first_name_def sample_defs)
  have l1: "get_contact_by_last_name ''King'' alice db0
              = [stored carol_body 1 1, stored dave_body 3 1]"
    by (simp add: get_contact_by_last_name_def sample_defs)
  have l2: "get_contact_by_last_name ''King'' bob db0 = []"
    by (simp add: get_contact_by_last_name_def sample_defs)
  from C10_empty_search_is_not_found
         [of "''Carol''" alice db0 "''King''" "\<lparr>year = 2023, month = 5, day = 2\<rparr>"]
       C10_empty_search_is_not_found
         [of "''Carol''" bob db0 "''King''" "\<lparr>year = 2023, month = 5, day = 2\<rparr>"]
  show ?thesis
    by (simp add: f1 f2 l1 l2 get_birthday_May_2 get_birthday_May_2_bob)
qed

section \<open>Creating a contact\<close>

lemma le_foldr_max: "x \<in> set xs \<Longrightarrow> x \<le> foldr max xs (0::int)"
  by (induction xs) auto

lemma fresh_id_fresh: "fresh_id rows \<notin> set (map id' rows)"
proof
  assume "fresh_id rows \<in> set (map id' rows)"
  then have "fresh_id rows \<le> foldr max (map id' rows) 0" by (rule le_foldr_max)
  then show False by (simp add: fresh_id_def)
qed

lemma get_contact_by_email_None:
  "get_contact_by_email contact_email user db = None \<longleftrightarrow>
     \<not> (\<exists>c \<in> set (contacts db). user_id c = uid user \<and> email c = contact_email)"
  by (auto simp: get_contact_by_email_def query_first_None filter_empty_conv)

text \<open>
  Claim C3, as stated, promises that the contact is created whenever the caller owns no
  contact with that email. The \<open>email\<close> column is unique over the whole table, so the
  commit is rejected when another user's contact has the email.
\<close>

theorem C3_counterexample:
  "get_contact_by_email (email erin_body) alice db0 = None \<and>
   routes_create_contact erin_body alice 200 db0 = (Inl IntegrityError, db0)"
  by (simp add: routes_create_contact_def create_contact_def get_contact_by_email_def
      query_first_def sample_defs)

text \<open>
  Claim C3, amended. A create-contact request whose email is the email of a contact the
  caller already owns is rejected with HTTP 409 and adds no contact; when no stored contact
  of any user has that email, the new contact is created with the fields of the body, owned
  by the caller, under an id no stored contact has, added to the table and returned.
\<close>

theorem C3_create_contact_duplicate_email:
  "((\<exists>c \<in> set (contacts db). user_id c = uid user \<and> email c = email body) \<longrightarrow>
      routes_create_contact body user now db
        = (Inl (HTTPException 409 ''Email is exists''), db)) \<and>
   (email body \<notin> set (map email (contacts db)) \<longrightarrow>
      (\<exists>c. routes_create_contact body user now db
             = (Inr c, db\<lparr>contacts := contacts db @ [c]\<rparr>) \<and>
           first_name c = first_name body \<and> last_name c = last_name body \<and>
           email c = email body \<and> phone c = phone body \<and> birthday c = birthday body \<and>
           user_id c = uid user \<and> id' c \<notin> set (map id' (contacts db))))"
proof (intro conjI impI)
  assume "\<exists>c \<in> set (contacts db). user_id c = uid user \<and> email c = email body"
  then have "get_contact_by_email (email body) user db \<noteq> None"
    by (simp add: get_contact_by_email_None)
  then show "routes_create_contact body user now db
               = (Inl (HTTPException 409 ''Email is exists''), db)"
    by (auto simp: routes_create_contact_def)
next
  assume new: "email body \<notin> set (map email (contacts db))"
  then have "get_contact_by_email (email body) user db = None"
    by (auto simp: get_contact_by_email_None image_iff)
  with new fresh_id_fresh [of "contacts db"]
  show "\<exists>c. routes_create_contact body user now db
             = (Inr c, db\<lparr>contacts := contacts db @ [c]\<rparr>) \<and>
           first_name c = first_name body \<and> last_name c = last_name body \<and>
           email c = email body \<and> phone c = phone body \<and> birthday c = birthday body \<and>
           user_id c = uid user \<and> id' c \<notin> set (map id' (contacts db))"
    by (simp add: routes_create_contact_def create_contact_def Let_def)
qed

theorem C3_create_contact_duplicate_email_witness:
  "routes_create_contact carol_body alice 200 db0
     = (Inl (HTTPException 409 ''Email is exists''), db0) \<and>
   email frank_body \<notin> set (map email (contacts db0)) \<and>
   fst (routes_create_contact frank_body alice 200 db0)
     = Inr ((stored frank_body 4 1)\<lparr>created_at := 200, updated_at := 200\<rparr>) \<and>
   length (contacts (snd (routes_create_contact frank_body alice 200 db0))) = 4"
proof -
  have dup: "\<exists>c \<in> set (contacts db0). user_id c = uid alice \<and> email c = email carol_body"
    by (simp add: sample_defs)
  have new: "email frank_body \<notin> set (map email (contacts db0))"
    by (simp add: sample_defs frank_body_def)
  have made: "fst (routes_create_contact frank_body alice 200 db0)
                = Inr ((stored frank_body 4 1)\<lparr>created_at := 200, updated_at := 200\<rparr>)"
    by (simp add: routes_create_contact_def create_contact_def get_contact_by_email_def
        query_first_def fresh_id_def sample_defs frank_body_def Let_def)
  from C3_create_contact_duplicate_email [of db0 alice carol_body 200] dup
  have a: "routes_create_contact carol_body alice 200 db0
             = (Inl (HTTPException 409 ''Email is exists''), db0)"
    by blast
  from C3_create_contact_duplicate_email [of db0 alice frank_body 200] new
  obtain c where "routes_create_contact frank_body alice 200 db0
                    = (Inr c, db0\<lparr>contacts := contacts db0 @ [c]\<rparr>)"
    by blast
  then have "length (contacts (snd (routes_create_contact frank_body alice 200 db0))) = 4"
    by (simp add: db0_def)
  with a new made show ?thesis by simp
qed

section \<open>Token scopes\<close>

lemmas jose_defs = jose_encode_def jose_decode_def validate_claims_def app_settings_def

lemma dict_get_scope:
  "dict_get payload k = PStr s \<longleftrightarrow> payload k = Some (PStr s)"
  by (simp add: dict_get_def split: option.splits)

text \<open>
  Claim C4. Whatever the library decodes a token to: when the payload's scope claim is not
  \<open>access_token\<close> (or there is none), \<open>get_current_user\<close> raises HTTP 401; when the
  payload's scope claim is a value other than \<open>refresh_token\<close>, \<open>decode_refresh_token\<close>
  raises HTTP 401; and a verifier returns a result only for a payload whose scope claim is
  its own scope, so neither accepts a token of the other scope. (A payload with no scope
  claim at all, which no token issued here has, is rejected by \<open>decode_refresh_token\<close>
  with the \<open>KeyError\<close> of \<open>payload['scope']\<close>.)
\<close>

theorem C4_token_of_other_scope_rejected:
  "(\<forall>payload. decode tok (secret_key S) [algorithm S] = Inr payload \<longrightarrow>
       payload ''scope'' \<noteq> Some (PStr ''access_token'') \<longrightarrow>
       get_current_user decode S tok db
         = Inl (HTTPException 401 ''Could not validate credentials'')) \<and>
   (\<forall>payload scope. decode tok (secret_key S) [algorithm S] = Inr payload \<longrightarrow>
       payload ''scope'' = Some scope \<longrightarrow> scope \<noteq> PStr ''refresh_token'' \<longrightarrow>
       decode_refresh_token decode S tok
         = Inl (HTTPException 401 ''Invalid scope for token'')) \<and>
   (\<forall>user. get_current_user decode S tok db = Inr user \<longrightarrow>
       (\<exists>payload. decode tok (secret_key S) [algorithm S] = Inr payload \<and>
                  payload ''scope'' = Some (PStr ''access_token''))) \<and>
   (\<forall>email_value. decode_refresh_token decode S tok = Inr email_value \<longrightarrow>
       (\<exists>payload. decode tok (secret_key S) [algorithm S] = Inr payload \<and>
                  payload ''scope'' = Some (PStr ''refresh_token'')))"
proof (intro conjI allI impI)
  fix payload
  assume "decode tok (secret_key S) [algorithm S] = Inr payload"
    and "payload ''scope'' \<noteq> Some (PStr ''access_token'')"
  then show "get_current_user decode S tok db
               = Inl (HTTPException 401 ''Could not validate credentials'')"
    by (simp add: get_current_user_def credentials_exception_def dict_get_scope)
next
  fix payload scope
  assume "decode tok (secret_key S) [algorithm S] = Inr payload"
    and "payload ''scope'' = Some scope" and "scope \<noteq> PStr ''refresh_token''"
  then show "decode_refresh_token decode S tok
               = Inl (HTTPException 401 ''Invalid scope for token'')"
    by (simp add: decode_refresh_token_def dict_item_def)
next
  fix user
  assume "get_current_user decode S tok db = Inr user"
  then show "\<exists>payload. decode tok (secret_key S) [algorithm S] = Inr payload \<and>
                       payload ''scope'' = Some (PStr ''access_token'')"
    by (auto simp: get_current_user_def dict_get_scope split: sum.splits if_splits)
next
  fix email_value
  assume "decode_refresh_token decode S tok = Inr email_value"
  then show "\<exists>payload. decode tok (secret_key S) [algorithm S] = Inr payload \<and>
                       payload ''scope'' = Some (PStr ''refresh_token'')"
    by (auto simp: decode_refresh_token_def dict_item_def
        split: sum.splits option.splits if_splits)
qed

theorem C4_token_of_other_scope_rejected_witness:
  "get_current_user (jose_decode 50) app_settings
     (create_refresh_token jose_encode app_settings 10 alice_claims None) db0
     = Inl (HTTPException 401 ''Could not validate credentials'') \<and>
   decode_refresh_token (jose_decode 50) app_settings
     (create_access_token jose_encode app_settings 10 alice_claims None)
     = Inl (HTTPException 401 ''Invalid scope for token'') \<and>
   get_current_user (jose_decode 50) app_settings
     (create_access_token jose_encode app_settings 10 alice_claims None) db0 = Inr alice"
proof -
  let ?r = "create_refresh_token jose_encode app_settings 10 alice_claims None"
  let ?a = "create_access_token jose_encode app_settings 10 alice_claims None"
  let ?rp = "alice_claims(''iat'' \<mapsto> PInt 10, ''exp'' \<mapsto> PInt (10 + 7 * 86400),
               ''scope'' \<mapsto> PStr ''refresh_token'')"
  let ?ap = "alice_claims(''iat'' \<mapsto> PInt 10, ''exp'' \<mapsto> PInt (10 + 15 * 60),
               ''scope'' \<mapsto> PStr ''access_token'')"
  have r: "jose_decode 50 ?r (secret_key app_settings) [algorithm app_settings] = Inr ?rp"
    by (simp add: create_refresh_token_def jose_defs alice_claims_def)
  have a: "jose_decode 50 ?a (secret_key app_settings) [algorithm app_settings] = Inr ?ap"
    by (simp add: create_access_token_def jose_defs alice_claims_def)
  have ok: "get_current_user (jose_decode 50) app_settings ?a db0 = Inr alice"
    unfolding get_current_user_def a
    by (simp add: dict_get_def alice_claims_def get_user_by_email_def query_first_def
        sample_defs)
  from C4_token_of_other_scope_rejected [of "jose_decode 50" ?r app_settings db0] r
  have 1: "get_current_user (jose_decode 50) app_settings ?r db0
             = Inl (HTTPException 401 ''Could not validate credentials'')"
    by simp
  from C4_token_of_other_scope_rejected [of "jose_decode 50" ?a app_settings db0] a
  have 2: "decode_refresh_token (jose_decode 50) app_settings ?a
             = Inl (HTTPException 401 ''Invalid scope for token'')"
    by simp
  from 1 2 ok show ?thesis by simp
qed

section \<open>The refresh-token round trip\<close>

text \<open>
  Claim C5. For every email \<open>e\<close>, a refresh token created from \<open>{'sub': e}\<close> and decoded
  with the same settings no later than its expiry (seven days after it was issued)
  decodes to \<open>e\<close>.
\<close>

theorem C5_refresh_token_round_trip:
  assumes "now' \<le> now + 7 * 86400"
  shows "decode_refresh_token (jose_decode now') S
           (create_refresh_token jose_encode S now (Map.empty(''sub'' \<mapsto> PStr e)) None)
         = Inr (PStr e)"
  using assms
  by (simp add: decode_refresh_token_def create_refresh_token_def jose_encode_def
      jose_decode_def validate_claims_def dict_item_def)

theorem C5_refresh_token_round_trip_witness:
  "(50::int) \<le> 10 + 7 * 86400 \<and>
   decode_refresh_token (jose_decode 50) app_settings
     (create_refresh_token jose_encode app_settings 10
        (Map.empty(''sub'' \<mapsto> PStr ''alice@example.com'')) None)
   = Inr (PStr ''alice@example.com'')"
proof -
  have h: "(50::int) \<le> 10 + 7 * 86400" by simp
  from C5_refresh_token_round_trip [OF h, of app_settings "''alice@example.com''"] h
  show ?thesis by simp
qed

section \<open>The email-confirmation verifier\<close>

lemma get_email_from_token_invalid:
  "decode tok (secret_key S) [algorithm S] = Inl e \<Longrightarrow>
   get_email_from_token decode S tok
     = Inl (HTTPException 422 ''Invalid token for email verification'')"
  by (simp add: get_email_from_token_def)

lemma get_email_from_token_other_scope:
  "decode tok (secret_key S) [algorithm S] = Inr payload \<Longrightarrow>
   payload ''scope'' = Some scope \<Longrightarrow> scope \<noteq> PStr ''email_token'' \<Longrightarrow>
   get_email_from_token decode S tok = Inr PNone"
  by (simp add: get_email_from_token_def dict_item_def)

text \<open>
  Claim C6 says that \<open>get_email_from_token\<close> fails with HTTP 422 on a token whose scope is
  not \<open>email_token\<close>. It does so for a token the library rejects, but on a valid token of
  another scope the function reaches the end of its body: an access token, decoded before
  its expiry under the same settings, makes it return \<open>None\<close> with no exception.
\<close>

theorem C6_access_token_returns_None:
  "get_email_from_token (jose_decode 50) app_settings
     (create_access_token jose_encode app_settings 10 alice_claims None) = Inr PNone"
  by (simp add: get_email_from_token_def create_access_token_def jose_defs dict_item_def
      alice_claims_def)

section \<open>The birthday window\<close>

lemma days_in_month_bounds: "28 \<le> days_in_month y m" "days_in_month y m \<le> 31"
  by (simp_all add: days_in_month_def)

lemma next_day_eq:
  "next_day d =
     (if day d < days_in_month (year d) (month d) then d\<lparr>day := day d + 1\<rparr>
      else if month d < 12 then d\<lparr>month := month d + 1, day := 1\<rparr>
      else \<lparr>year = year d + 1, month = 1, day = 1\<rparr>)"
  by (simp add: next_day_def)

lemma next_days_within_month:
  "day d + k \<le> days_in_month (year d) (month d) \<Longrightarrow> (next_day ^^ k) d = d\<lparr>day := day d + k\<rparr>"
proof (induction k)
  case 0
  then show ?case by simp
next
  case (Suc k)
  then have "(next_day ^^ k) d = d\<lparr>day := day d + k\<rparr>" by simp
  then have "(next_day ^^ Suc k) d = next_day (d\<lparr>day := day d + k\<rparr>)" by simp
  also have "\<dots> = d\<lparr>day := day d + Suc k\<rparr>"
    using Suc.prems by (simp add: next_day_eq)
  finally show ?case .
qed

lemma next_days_over_month_end:
  assumes "day d \<le> days_in_month (year d) (month d)"
    and "days_in_month (year d) (month d) < day d + 7"
  shows "(next_day ^^ 7) d =
           (if month d < 12
            then \<lparr>year = year d, month = month d + 1,
                  day = day d + 7 - days_in_month (year d) (month d)\<rparr>
            else \<lparr>year = year d + 1, month = 1,
                  day = day d + 7 - days_in_month (year d) (month d)\<rparr>)"
proof -
  define n where "n = days_in_month (year d) (month d)"
  define j where "j = n - day d"
  define first where
    "first = (if month d < 12 then \<lparr>year = year d, month = month d + 1, day = 1\<rparr>
              else \<lparr>year = year d + 1, month = 1, day = 1\<rparr>)"
  from assms have j: "j < 7" "day d + j = n" by (simp_all add: j_def n_def)
  then have split: "7 = (6 - j) + (1 + j)" by simp
  have "(next_day ^^ j) d = d\<lparr>day := day d + j\<rparr>"
    using j by (intro next_days_within_month) (simp add: n_def)
  then have last: "(next_day ^^ j) d = d\<lparr>day := n\<rparr>" using j by simp
  have roll: "next_day (d\<lparr>day := n\<rparr>) = first"
    by (simp add: next_day_eq n_def first_def)
  have day_first: "day first = 1" by (simp add: first_def)
  have "day first + (6 - j) \<le> days_in_month (year first) (month first)"
    using days_in_month_bounds(1) [of "year first" "month first"] day_first by linarith
  then have rest: "(next_day ^^ (6 - j)) first = first\<lparr>day := day first + (6 - j)\<rparr>"
    by (rule next_days_within_month)
  have "(next_day ^^ 7) d = (next_day ^^ (6 - j)) ((next_day ^^ (1 + j)) d)"
    by (subst split) (simp only: funpow_add o_apply)
  also have "(next_day ^^ (1 + j)) d = first"
    by (simp add: last roll)
  finally have "(next_day ^^ 7) d = first\<lparr>day := day first + (6 - j)\<rparr>"
    by (simp add: rest)
  moreover have "day first + (6 - j) = day d + 7 - n"
    using j day_first by linarith
  ultimately show ?thesis
    by (simp add: first_def n_def)
qed

lemma date_add_week:
  assumes "valid_date today"
    and "year today < 9999 \<or> month today < 12 \<or> day today \<le> 24"
  shows "\<exists>next_week. date_add_days today 7 = Inr next_week \<and>
                      day next_week = day_after_week today"
proof (cases "day today + 7 \<le> days_in_month (year today) (month today)")
  case True
  then have "(next_day ^^ 7) today = today\<lparr>day := day today + 7\<rparr>"
    by (rule next_days_within_month)
  with True assms(1) show ?thesis
    by (simp add: date_add_days_def day_after_week_def valid_date_def)
next
  case False
  with assms(1) have over: "(next_day ^^ 7) today =
           (if month today < 12
            then \<lparr>year = year today, month = month today + 1,
                  day = day today + 7 - days_in_month (year today) (month today)\<rparr>
            else \<lparr>year = year today + 1, month = 1,
                  day = day today + 7 - days_in_month (year today) (month today)\<rparr>)"
    by (intro next_days_over_month_end) (simp_all add: valid_date_def)
  have "month today < 12 \<or> year today < 9999"
  proof (rule ccontr)
    assume "\<not> (month today < 12 \<or> year today < 9999)"
    with assms(1) have last: "month today = 12" "year today = 9999"
      by (simp_all add: valid_date_def)
    then have "days_in_month (year today) (month today) = 31"
      by (simp add: days_in_month_def)
    with False assms(2) last show False by simp
  qed
  with False assms(1) show ?thesis
    by (auto simp: date_add_days_def over day_after_week_def valid_date_def)
qed

text \<open>
  Claim C7. For every user, on every day of the calendar that has a day seven days later
  (every valid date up to 9999-12-24), \<open>get_birthday\<close> returns exactly the stored contacts
  of the user whose birthday has a day of the month at least today's, a day of the month
  at most that of today + 7 days, and the month of today. The window compares the fields
  only: when today + 7 days is in the next month its day of the month is
  \<open>day today + 7 - days_in_month\<close>, below today's.
\<close>

theorem C7_birthday_window_by_fields:
  assumes "valid_date today"
    and "year today < 9999 \<or> month today < 12 \<or> day today \<le> 24"
  shows "\<exists>next_week. date_add_days today 7 = Inr next_week \<and>
           day next_week = day_after_week today \<and>
           get_birthday today user db =
             Inr (filter (\<lambda>c. user_id c = uid user \<and>
                              day today \<le> day (birthday c) \<and>
                              day (birthday c) \<le> day next_week \<and>
                              month (birthday c) = month today) (contacts db))"
proof -
  from date_add_week [OF assms] obtain next_week
    where "date_add_days today 7 = Inr next_week" "day next_week = day_after_week today"
    by blast
  then show ?thesis by (simp add: get_birthday_def)
qed

lemma valid_May_2: "valid_date \<lparr>year = 2023, month = 5, day = 2\<rparr>"
  by (simp add: valid_date_def days_in_month_def)

lemma valid_May_28: "valid_date \<lparr>year = 2023, month = 5, day = 28\<rparr>"
  by (simp add: valid_date_def days_in_month_def)

theorem C7_birthday_window_by_fields_witness:
  "valid_date \<lparr>year = 2023, month = 5, day = 2\<rparr> \<and>
   valid_date \<lparr>year = 2023, month = 5, day = 28\<rparr> \<and>
   get_birthday \<lparr>year = 2023, month = 5, day = 2\<rparr> alice db0 = Inr [stored carol_body 1 1] \<and>
   get_birthday \<lparr>year = 2023, month = 5, day = 28\<rparr> alice db0 = Inr []"
proof -
  have a: "day_after_week \<lparr>year = 2023, month = 5, day = 2\<rparr> = 9"
    by (simp add: day_after_week_def days_in_month_def)
  have b: "day_after_week \<lparr>year = 2023, month = 5, day = 28\<rparr> = 4"
    by (simp add: day_after_week_def days_in_month_def)
  from C7_birthday_window_by_fields [OF valid_May_2, of alice db0] a
  have 1: "get_birthday \<lparr>year = 2023, month = 5, day = 2\<rparr> alice db0
             = Inr [stored carol_body 1 1]"
    by (auto simp: sample_defs)
  from C7_birthday_window_by_fields [OF valid_May_28, of alice db0] b
  have 2: "get_birthday \<lparr>year = 2023, month = 5, day = 28\<rparr> alice db0 = Inr []"
    by (auto simp: sample_defs)
  from 1 2 valid_May_2 valid_May_28 show ?thesis by simp
qed

section \<open>Updating a contact\<close>

lemma same_id_same_row:
  assumes "distinct (map id' rows)" and "r \<in> set rows" and "c \<in> set rows"
    and "id' r = id' c"
  shows "r = c"
proof -
  from assms(1) have "inj_on id' (set rows)" by (simp add: distinct_map)
  with assms(2-4) show ?thesis by (auto dest: inj_onD)
qed

lemma get_contact_by_id_owned:
  assumes "distinct (map id' (contacts db))" and "c \<in> set (contacts db)"
    and "id' c = contact_id" and "user_id c = uid user"
  shows "get_contact_by_id contact_id user db = Some c"
proof -
  let ?found = "filter (\<lambda>r. user_id r = uid user \<and> id' r = contact_id) (contacts db)"
  from assms have "c \<in> set ?found" by simp
  then obtain r where r: "query_first ?found = Some r"
    by (cases ?found) (auto simp: query_first_def)
  then have "r \<in> set ?found" by (rule query_first_Some)
  then have "r \<in> set (contacts db)" "id' r = id' c" using assms(3) by simp_all
  with assms(1,2) have "r = c" by (intro same_id_same_row [of "contacts db"])
  with r show ?thesis by (simp add: get_contact_by_id_def)
qed

lemma assign_body_fields:
  "first_name (assign_body body now c) = first_name body"
  "last_name (assign_body body now c) = last_name body"
  "email (assign_body body now c) = email body"
  "phone (assign_body body now c) = phone body"
  "birthday (assign_body body now c) = birthday body"
  "updated_at (assign_body body now c) = now"
  "id' (assign_body body now c) = id' c"
  "user_id (assign_body body now c) = user_id c"
  "created_at (assign_body body now c) = created_at c"
  by (simp_all add: assign_body_def)

text \<open>
  Claim C9, as stated, has \<open>update\<close> set the five fields of every owned contact to the
  values of the request body. The \<open>email\<close> column is unique: when another stored contact
  has the body's email the commit is rejected and the contact keeps its fields.
\<close>

theorem C9_counterexample:
  "get_contact_by_id 3 alice db0 = Some (stored dave_body 3 1) \<and>
   email (stored dave_body 3 1) \<noteq> email carol_body \<and>
   update 3 carol_body alice 200 db0 = (Inl IntegrityError, db0)"
  by (simp add: update_def get_contact_by_id_def query_first_def sample_defs)

text \<open>
  Claim C9, amended. For every stored contact \<open>c\<close> the caller owns (ids being the primary
  key): when another stored contact has the body's email, \<open>update\<close> raises
  \<open>IntegrityError\<close> and storage is unchanged; otherwise it returns the contact with
  \<open>first_name\<close>, \<open>last_name\<close>, \<open>email\<close>, \<open>phone\<close> and \<open>birthday\<close> set to the values of
  the body (and \<open>updated_at\<close> to the time of the update), with \<open>id\<close>, \<open>user_id\<close> and
  \<open>created_at\<close> unchanged, and storage is what it was with this one contact replaced:
  every other contact is unchanged.
\<close>

theorem C9_update_changes_only_body_fields:
  assumes "distinct (map id' (contacts db))" and "c \<in> set (contacts db)"
    and "id' c = contact_id" and "user_id c = uid user"
  shows "(email body \<in> set (map email (filter (\<lambda>r. r \<noteq> c) (contacts db))) \<longrightarrow>
            update contact_id body user now db = (Inl IntegrityError, db)) \<and>
         (email body \<notin> set (map email (filter (\<lambda>r. r \<noteq> c) (contacts db))) \<longrightarrow>
            (\<exists>c'. update contact_id body user now db
                    = (Inr (Some c'),
                       db\<lparr>contacts := map (\<lambda>r. if r = c then c' else r) (contacts db)\<rparr>) \<and>
                  first_name c' = first_name body \<and> last_name c' = last_name body \<and>
                  email c' = email body \<and> phone c' = phone body \<and>
                  birthday c' = birthday body \<and> updated_at c' = now \<and>
                  id' c' = id' c \<and> user_id c' = user_id c \<and> created_at c' = created_at c))"
proof -
  have found: "get_contact_by_id contact_id user db = Some c"
    using assms by (rule get_contact_by_id_owned)
  have other: "r \<in> set (contacts db) \<Longrightarrow> (id' r \<noteq> id' c) = (r \<noteq> c)" for r
    using same_id_same_row [OF assms(1) _ assms(2)] by blast
  then have others: "filter (\<lambda>r. id' r \<noteq> id' c) (contacts db)
                       = filter (\<lambda>r. r \<noteq> c) (contacts db)"
    by (intro filter_cong) simp_all
  have replaced: "map (\<lambda>r. if id' r = id' c then assign_body body now r else r) (contacts db)
                    = map (\<lambda>r. if r = c then assign_body body now c else r) (contacts db)"
    using other by (intro map_cong) auto
  show ?thesis
  proof (intro conjI impI)
    assume "email body \<in> set (map email (filter (\<lambda>r. r \<noteq> c) (contacts db)))"
    then show "update contact_id body user now db = (Inl IntegrityError, db)"
      by (simp add: update_def found others)
  next
    assume "email body \<notin> set (map email (filter (\<lambda>r. r \<noteq> c) (contacts db)))"
    then have "update contact_id body user now db
                 = (Inr (Some (assign_body body now c)),
                    db\<lparr>contacts := map (\<lambda>r. if r = c then assign_body body now c else r)
                                      (contacts db)\<rparr>)"
      by (simp add: update_def found others replaced)
    then show "\<exists>c'. update contact_id body user now db
                    = (Inr (Some c'),
                       db\<lparr>contacts := map (\<lambda>r. if r = c then c' else r) (contacts db)\<rparr>) \<and>
                  first_name c' = first_name body \<and> last_name c' = last_name body \<and>
                  email c' = email body \<and> phone c' = phone body \<and>
                  birthday c' = birthday body \<and> updated_at c' = now \<and>
                  id' c' = id' c \<and> user_id c' = user_id c \<and> created_at c' = created_at c"
      by (intro exI [of _ "assign_body body now c"]) (simp add: assign_body_fields)
  qed
qed

theorem C9_update_changes_only_body_fields_witness:
  "distinct (map id' (contacts db0)) \<and>
   update 3 carol_body alice 200 db0 = (Inl IntegrityError, db0) \<and>
   update 3 frank_body alice 200 db0
     = (Inr (Some ((stored frank_body 3 1)\<lparr>updated_at := 200\<rparr>)),
        db0\<lparr>contacts := [stored carol_body 1 1, stored erin_body 2 2,
                          (stored frank_body 3 1)\<lparr>updated_at := 200\<rparr>]\<rparr>)"
proof -
  have pk: "distinct (map id' (contacts db0))" by (simp add: sample_defs)
  have mem: "stored dave_body 3 1 \<in> set (contacts db0)" by (simp add: db0_def)
  have ident: "id' (stored dave_body 3 1) = 3" by (simp add: stored_def)
  have owner: "user_id (stored dave_body 3 1) = uid alice" by (simp add: stored_def alice_def)
  have taken: "email carol_body
      \<in> set (map email (filter (\<lambda>r. r \<noteq> stored dave_body 3 1) (contacts db0)))"
    by (simp add: sample_defs)
  have free: "email frank_body
      \<notin> set (map email (filter (\<lambda>r. r \<noteq> stored dave_body 3 1) (contacts db0)))"
    by (simp add: sample_defs)
  from C9_update_changes_only_body_fields [OF pk mem ident owner, of carol_body 200] taken
  have 1: "update 3 carol_body alice 200 db0 = (Inl IntegrityError, db0)" by blast
  from C9_update_changes_only_body_fields [OF pk mem ident owner, of frank_body 200] free
  obtain c' where c': "update 3 frank_body alice 200 db0
        = (Inr (Some c'),
           db0\<lparr>contacts := map (\<lambda>r. if r = stored dave_body 3 1 then c' else r)
                               (contacts db0)\<rparr>)"
      "first_name c' = first_name frank_body" "last_name c' = last_name frank_body"
      "email c' = email frank_body" "phone c' = phone frank_body"
      "birthday c' = birthday frank_body" "updated_at c' = 200"
      "id' c' = id' (stored dave_body 3 1)" "user_id c' = user_id (stored dave_body 3 1)"
      "created_at c' = created_at (stored dave_body 3 1)"
    by blast
  from c'(2-) have "c' = (stored frank_body 3 1)\<lparr>updated_at := 200\<rparr>"
    by (cases c') (simp add: stored_def)
  with c'(1) have 2: "update 3 frank_body alice 200 db0
     = (Inr (Some ((stored frank_body 3 1)\<lparr>updated_at := 200\<rparr>)),
        db0\<lparr>contacts := [stored carol_body 1 1, stored erin_body 2 2,
                          (stored frank_body 3 1)\<lparr>updated_at := 200\<rparr>]\<rparr>)"
    by (simp add: sample_defs)
  from pk 1 2 show ?thesis by simp
qed

section \<open>One contact per email\<close>

text \<open>What the database keeps: ids are the primary key, and the claimed invariant.\<close>

lemma create_keeps_invariant:
  assumes "distinct (map id' (contacts db))" and "one_contact_per_email db"
  shows "distinct (map id' (contacts (snd (routes_create_contact body user now db)))) \<and>
         one_contact_per_email (snd (routes_create_contact body user now db))"
proof (cases "get_contact_by_email (email body) user db = None \<and>
              email body \<notin> set (map email (contacts db))")
  case True
  then have new: "email body \<notin> email ` set (contacts db)" by simp
  have pair: "(uid user, email body) \<notin> (\<lambda>c. (user_id c, email c)) ` set (contacts db)"
    using new by auto
  from True assms fresh_id_fresh [of "contacts db"] pair show ?thesis
    by (simp add: routes_create_contact_def create_contact_def Let_def
        one_contact_per_email_def)
next
  case False
  then have "snd (routes_create_contact body user now db) = db"
    by (auto simp: routes_create_contact_def create_contact_def Let_def split: option.splits)
  with assms show ?thesis by simp
qed

lemma update_keeps_invariant:
  assumes pk: "distinct (map id' (contacts db))" and inv: "one_contact_per_email db"
  shows "distinct (map id' (contacts (snd (update contact_id body user now db)))) \<and>
         one_contact_per_email (snd (update contact_id body user now db))"
proof (cases "get_contact_by_id contact_id user db")
  case None
  with assms show ?thesis by (simp add: update_def)
next
  case (Some contact)
  let ?rows = "contacts db"
  let ?others = "filter (\<lambda>c. id' c \<noteq> id' contact) ?rows"
  let ?g = "\<lambda>c. if id' c = id' contact then assign_body body now c else c"
  let ?pair = "\<lambda>c::Contact. (user_id c, email c)"
  show ?thesis
  proof (cases "email body \<in> set (map email ?others)")
    case True
    with Some assms show ?thesis by (simp add: update_def)
  next
    case False
    then have after: "snd (update contact_id body user now db) = db\<lparr>contacts := map ?g ?rows\<rparr>"
      by (simp add: update_def Some)
    have ids: "map id' (map ?g ?rows) = map id' ?rows"
      by (simp add: assign_body_fields comp_def if_distrib [of id'] cong: if_cong)
    from pk have rows: "distinct ?rows" by (rule distinct_map [THEN iffD1, THEN conjunct1])
    from inv have inj: "inj_on ?pair (set ?rows)"
      by (simp add: one_contact_per_email_def distinct_map)
    have "inj_on (\<lambda>c. ?pair (?g c)) (set ?rows)"
    proof (rule inj_onI)
      fix r1 r2
      assume r1: "r1 \<in> set ?rows" and r2: "r2 \<in> set ?rows"
        and eq: "?pair (?g r1) = ?pair (?g r2)"
      consider (both) "id' r1 = id' contact" "id' r2 = id' contact"
        | (left) "id' r1 = id' contact" "id' r2 \<noteq> id' contact"
        | (right) "id' r1 \<noteq> id' contact" "id' r2 = id' contact"
        | (none) "id' r1 \<noteq> id' contact" "id' r2 \<noteq> id' contact"
        by blast
      then show "r1 = r2"
      proof cases
        case both
        then have "id' r1 = id' r2" by simp
        with pk r1 r2 show ?thesis by (rule same_id_same_row)
      next
        case left
        with eq have "email r2 = email body" by (simp add: assign_body_fields)
        moreover from left r2 have "r2 \<in> set ?others" by simp
        ultimately have "email body \<in> set (map email ?others)" by force
        with False show ?thesis by contradiction
      next
        case right
        with eq have "email r1 = email body" by (simp add: assign_body_fields)
        moreover from right r1 have "r1 \<in> set ?others" by simp
        ultimately have "email body \<in> set (map email ?others)" by force
        with False show ?thesis by contradiction
      next
        case none
        with eq have "?pair r1 = ?pair r2" by simp
        with inj r1 r2 show ?thesis by (auto dest: inj_onD)
      qed
    qed
    with rows have "distinct (map (\<lambda>c. ?pair (?g c)) ?rows)"
      by (simp add: distinct_map)
    then have pairs: "distinct (map ?pair (map ?g ?rows))" by (simp add: comp_def)
    from pk have keys: "distinct (map id' (map ?g ?rows))" by (simp only: ids)
    from keys pairs show ?thesis
      unfolding after one_contact_per_email_def by simp
  qed
qed

lemma remove_keeps_invariant:
  assumes "distinct (map id' (contacts db))" and "one_contact_per_email db"
  shows "distinct (map id' (contacts (snd (remove contact_id user db)))) \<and>
         one_contact_per_email (snd (remove contact_id user db))"
  using assms
  by (cases "get_contact_by_id contact_id user db")
     (simp_all add: remove_def one_contact_per_email_def distinct_map_filter)

lemma step_keeps_invariant:
  assumes "distinct (map id' (contacts db))" and "one_contact_per_email db"
  shows "distinct (map id' (contacts (step op db))) \<and> one_contact_per_email (step op db)"
proof (cases op)
  case (Create body user now)
  with create_keeps_invariant [OF assms] show ?thesis by simp
next
  case (Update contact_id body user now)
  with update_keeps_invariant [OF assms] show ?thesis by simp
next
  case (Remove contact_id user)
  with remove_keeps_invariant [OF assms] show ?thesis by simp
qed

text \<open>
  Claim C8. Starting from stored contacts with distinct ids (the primary key) of which no
  two of one user share an email, any sequence of contact operations (creating through the
  route, \<open>update\<close>, \<open>remove\<close>) leaves stored contacts of which no two of one user share
  an email; in particular \<open>update\<close> never makes two contacts of a user share an email
  (the unique \<open>email\<close> column rejects the commit that would).
\<close>

theorem C8_one_contact_per_email_invariant:
  assumes "distinct (map id' (contacts db))" and "one_contact_per_email db"
  shows "one_contact_per_email (run ops db) \<and> distinct (map id' (contacts (run ops db)))"
  using assms
proof (induction ops arbitrary: db)
  case Nil
  then show ?case by simp
next
  case (Cons op ops)
  from step_keeps_invariant [OF Cons.prems, of op]
  show ?case by (simp add: Cons.IH)
qed

theorem C8_one_contact_per_email_invariant_witness:
  "distinct (map id' (contacts db0)) \<and> one_contact_per_email db0 \<and>
   one_contact_per_email (run sample_operations db0) \<and>
   map (\<lambda>c. (id' c, user_id c, email c)) (contacts (run sample_operations db0))
     = [(2, 2, ''erin@example.com''), (3, 1, ''carol@example.com''),
        (4, 2, ''frank@example.com'')]"
proof -
  have pk: "distinct (map id' (contacts db0))" by (simp add: sample_defs)
  have inv: "one_contact_per_email db0"
    by (simp add: one_contact_per_email_def sample_defs)
  have final: "map (\<lambda>c. (id' c, user_id c, email c)) (contacts (run sample_operations db0))
     = [(2, 2, ''erin@example.com''), (3, 1, ''carol@example.com''),
        (4, 2, ''frank@example.com'')]"
    by (simp add: sample_operations_def routes_create_contact_def create_contact_def
        update_def remove_def get_contact_by_email_def get_contact_by_id_def query_first_def
        fresh_id_def assign_body_def Let_def sample_defs)
  from C8_one_contact_per_email_invariant [OF pk inv, of sample_operations] pk inv final
  show ?thesis by simp
qed

end
